theory Spec2Isabelle
  imports Main
begin

section \<open>TCP file client: data model\<close>

text \<open>
  The program (\<^verbatim>\<open>main.go\<close>) dials a fixed server, opens a log file, validates a file
  name against \<^verbatim>\<open>^[a-zA-Z0-9._-]+$\<close>, sends \<^verbatim>\<open>GET <filename>\n\<close> and copies what it
  reads from the connection into a local file until the connection reports \<^verbatim>\<open>io.EOF\<close>.

  Go strings and byte slices are byte sequences; both are lists of \<^typ>\<open>char\<close> (a byte).
\<close>

type_synonym bytes = string

definition newline :: char where
  "newline = CHR 0x0A"

text \<open>
  Go error values. \<^verbatim>\<open>io.EOF\<close> is a sentinel the code compares against with \<^verbatim>\<open>==\<close>;
  \<open>Timeout\<close> stands for the \<^verbatim>\<open>net.Error\<close> a read returns once its deadline has passed;
  \<open>Plain\<close> is any other error, given by its message; \<open>Wrapped p e\<close> is
  \<^verbatim>\<open>fmt.Errorf(p + "%w", e)\<close>.
\<close>

datatype error =
    EOF
  | Timeout
  | Plain string
  | Wrapped string error

fun error_string :: "error \<Rightarrow> string" where
  "error_string EOF = ''EOF''"
| "error_string Timeout = ''i/o timeout''"
| "error_string (Plain m) = m"
| "error_string (Wrapped p e) = p @ error_string e"

subsection \<open>Constants\<close>

definition ServerAddress :: string where
  "ServerAddress = ''127.0.0.1:8000''"

definition DefaultBufferSize :: int where
  "DefaultBufferSize = 8192"

definition DefaultLogFilename :: string where
  "DefaultLogFilename = ''tcp-client.log''"

text \<open>\<^verbatim>\<open>30 * time.Second\<close>: a \<^verbatim>\<open>time.Duration\<close> counts nanoseconds.\<close>

definition ConnectionTimeout :: int where
  "ConnectionTimeout = 30 * 1000000000"

section \<open>The file name pattern\<close>

text \<open>
  The fragment of Go's regular expression syntax tree that \<^verbatim>\<open>FilenameRegex\<close> uses:
  \<^verbatim>\<open>^\<close> (beginning of text), \<^verbatim>\<open>$\<close> (end of text; without the \<^verbatim>\<open>m\<close> flag it does not match
  before a final newline), a character class given by its ranges, \<^verbatim>\<open>+\<close> and concatenation.
  Every character of the class is ASCII, so matching bytes agrees with matching the
  UTF-8 decoded runes: a byte of a multi-byte or invalid sequence is in no range.
\<close>

datatype regex =
    BeginText
  | EndText
  | CharClass "(char \<times> char) list"
  | Plus regex
  | Concat regex regex

definition in_class :: "(char \<times> char) list \<Rightarrow> char \<Rightarrow> bool" where
  "in_class rs c =
     list_ex (\<lambda>(lo, hi). (of_char lo :: nat) \<le> of_char c \<and> (of_char c :: nat) \<le> of_char hi) rs"

text \<open>\<open>ends re s i\<close>: the positions where a match of \<open>re\<close> that starts at position \<open>i\<close>
  of \<open>s\<close> can end.\<close>

function ends :: "regex \<Rightarrow> string \<Rightarrow> nat \<Rightarrow> nat list" where
  "ends BeginText s i = (if i = 0 then [i] else [])"
| "ends EndText s i = (if i = length s then [i] else [])"
| "ends (CharClass rs) s i = (if i < length s \<and> in_class rs (s ! i) then [Suc i] else [])"
| "ends (Concat a b) s i = concat (map (\<lambda>j. ends b s j) (ends a s i))"
| "ends (Plus r) s i =
     concat (map (\<lambda>j. j # (if i < j \<and> j \<le> length s then ends (Plus r) s j else []))
                 (ends r s i))"
  by pat_completeness auto
termination
  by (relation "measures [\<lambda>(r, s, i). size r, \<lambda>(r, s, i). length s - i]") auto

declare ends.simps(5) [simp del]

text \<open>\<^verbatim>\<open>Regexp.MatchString\<close> reports whether the string contains any match.\<close>

definition MatchString :: "regex \<Rightarrow> string \<Rightarrow> bool" where
  "MatchString re s = list_ex (\<lambda>i. ends re s i \<noteq> []) [0..<Suc (length s)]"

definition filename_class :: "(char \<times> char) list" where
  "filename_class =
     [(CHR ''a'', CHR ''z''), (CHR ''A'', CHR ''Z''), (CHR ''0'', CHR ''9''),
      (CHR ''.'', CHR ''.''), (CHR ''_'', CHR ''_''), (CHR ''-'', CHR ''-'')]"

definition FilenameRegex :: regex where
  "FilenameRegex = Concat BeginText (Concat (Plus (CharClass filename_class)) EndText)"

definition validateFilename :: "string \<Rightarrow> error option" where
  "validateFilename filename =
     (if \<not> MatchString FilenameRegex filename
      then Some (Plain (''invalid filename: '' @ filename))
      else None)"

text \<open>
  The specification's wording of the contract, to compare the code with: the allowed
  characters are the letters, the digits, dot, underscore and hyphen, and a name is
  accepted when it is not empty and consists of allowed characters only.
\<close>

definition spec_allowed_char :: "char \<Rightarrow> bool" where
  "spec_allowed_char c \<longleftrightarrow>
     c \<in> set (''abcdefghijklmnopqrstuvwxyz'' @ ''ABCDEFGHIJKLMNOPQRSTUVWXYZ'' @
              ''0123456789'' @ ''._-'')"

definition spec_whole_match :: "string \<Rightarrow> bool" where
  "spec_whole_match filename \<longleftrightarrow> filename \<noteq> [] \<and> list_all spec_allowed_char filename"

section \<open>Properties of the validator\<close>

lemma plus_class_unfold:
  "ends (Plus (CharClass rs)) s i =
     (if i < length s \<and> in_class rs (s ! i)
      then Suc i # ends (Plus (CharClass rs)) s (Suc i) else [])"
  by (subst ends.simps(5)) simp

lemma plus_class_ends:
  "j \<in> set (ends (Plus (CharClass rs)) s i) \<longleftrightarrow>
     i < j \<and> j \<le> length s \<and> (\<forall>k. i \<le> k \<and> k < j \<longrightarrow> in_class rs (s ! k))"
proof (induction "length s - i" arbitrary: i)
  case 0
  then have "length s \<le> i" by simp
  then show ?case by (subst plus_class_unfold) auto
next
  case (Suc n)
  then have lt: "i < length s" and n: "n = length s - Suc i" by auto
  show ?case
  proof (cases "in_class rs (s ! i)")
    case False
    then show ?thesis by (subst plus_class_unfold) (auto simp: lt)
  next
    case True
    have "j \<in> set (ends (Plus (CharClass rs)) s i) \<longleftrightarrow>
            j = Suc i \<or> j \<in> set (ends (Plus (CharClass rs)) s (Suc i))"
      by (subst plus_class_unfold) (simp add: lt True)
    also have "\<dots> \<longleftrightarrow> j = Suc i \<or>
        (Suc i < j \<and> j \<le> length s \<and> (\<forall>k. Suc i \<le> k \<and> k < j \<longrightarrow> in_class rs (s ! k)))"
      using Suc.hyps(1) [OF n] by simp
    also have "\<dots> \<longleftrightarrow>
        i < j \<and> j \<le> length s \<and> (\<forall>k. i \<le> k \<and> k < j \<longrightarrow> in_class rs (s ! k))"
      using lt True
      by (metis Suc_leI le_neq_implies_less less_imp_le_nat not_less_eq_eq Suc_le_eq le_refl
          less_Suc_eq_le)
    finally show ?thesis .
  qed
qed

lemma anchored_plus_match:
  "MatchString (Concat BeginText (Concat (Plus (CharClass rs)) EndText)) s \<longleftrightarrow>
     s \<noteq> [] \<and> (\<forall>c \<in> set s. in_class rs c)"
proof -
  let ?P = "Plus (CharClass rs)"
  have e: "ends (Concat BeginText (Concat ?P EndText)) s i =
             (if i = 0 then concat (map (ends EndText s) (ends ?P s 0)) else [])" for i
    by simp
  have "MatchString (Concat BeginText (Concat ?P EndText)) s \<longleftrightarrow>
          concat (map (ends EndText s) (ends ?P s 0)) \<noteq> []"
    unfolding MatchString_def list_ex_iff e by auto
  also have "\<dots> \<longleftrightarrow> length s \<in> set (ends ?P s 0)"
    by auto
  also have "\<dots> \<longleftrightarrow> 0 < length s \<and> (\<forall>k < length s. in_class rs (s ! k))"
    by (simp add: plus_class_ends)
  also have "\<dots> \<longleftrightarrow> s \<noteq> [] \<and> (\<forall>c \<in> set s. in_class rs c)"
    by (auto simp: all_set_conv_all_nth)
  finally show ?thesis .
qed

lemma char_mem_iff: "c \<in> set cs \<longleftrightarrow> (of_char c :: nat) \<in> of_char ` set cs"
  by (auto simp: image_iff)

lemma in_filename_class_code:
  "in_class filename_class c \<longleftrightarrow>
     (let n = of_char c :: nat in
        97 \<le> n \<and> n \<le> 122 \<or> 65 \<le> n \<and> n \<le> 90 \<or> 48 \<le> n \<and> n \<le> 57 \<or>
        n = 46 \<or> n = 95 \<or> n = 45)"
  unfolding filename_class_def in_class_def by (auto simp: Let_def)

lemma range_as_list: "a \<le> (n::nat) \<and> n \<le> b \<longleftrightarrow> n \<in> set [a..<Suc b]"
  by auto

lemma lower_letter:
  "c \<in> set ''abcdefghijklmnopqrstuvwxyz'' \<longleftrightarrow>
     97 \<le> (of_char c :: nat) \<and> (of_char c :: nat) \<le> 122"
  unfolding range_as_list by (subst char_mem_iff) (simp del: set_upt)

lemma upper_letter:
  "c \<in> set ''ABCDEFGHIJKLMNOPQRSTUVWXYZ'' \<longleftrightarrow>
     65 \<le> (of_char c :: nat) \<and> (of_char c :: nat) \<le> 90"
  unfolding range_as_list by (subst char_mem_iff) (simp del: set_upt)

lemma digit_char:
  "c \<in> set ''0123456789'' \<longleftrightarrow> 48 \<le> (of_char c :: nat) \<and> (of_char c :: nat) \<le> 57"
  unfolding range_as_list by (subst char_mem_iff) (simp del: set_upt)

lemma punct_char:
  "c \<in> set ''._-'' \<longleftrightarrow>
     (of_char c :: nat) = 46 \<or> (of_char c :: nat) = 95 \<or> (of_char c :: nat) = 45"
  by (subst char_mem_iff) simp

lemma in_filename_class: "in_class filename_class c \<longleftrightarrow> spec_allowed_char c"
  unfolding in_filename_class_code spec_allowed_char_def Let_def set_append Un_iff
    lower_letter upper_letter digit_char punct_char
  by blast

lemma MatchString_FilenameRegex: "MatchString FilenameRegex s \<longleftrightarrow> spec_whole_match s"
  unfolding FilenameRegex_def anchored_plus_match spec_whole_match_def list_all_iff
  by (simp add: in_filename_class)

text \<open>
  Claim C3. \<open>validateFilename\<close> accepts a name exactly when the whole name matches
  \<^verbatim>\<open>[a-zA-Z0-9._-]+\<close>, that is, when it is not empty and every character is a letter,
  a digit, a dot, an underscore or a hyphen; every other name, the empty one included,
  is rejected with an error whose message carries the name.
\<close>

theorem validateFilename_accepts_iff:
  "(validateFilename filename = None \<longleftrightarrow> spec_whole_match filename) \<and>
   (\<not> spec_whole_match filename \<longrightarrow>
      validateFilename filename = Some (Plain (''invalid filename: '' @ filename)))"
  by (simp add: validateFilename_def MatchString_FilenameRegex)

theorem validateFilename_accepts_iff_witness:
  "validateFilename ''report-2.v1_final.TXT'' = None \<and>
   validateFilename ''/etc/passwd'' = Some (Plain ''invalid filename: /etc/passwd'') \<and>
   validateFilename ''a b.txt'' = Some (Plain ''invalid filename: a b.txt'') \<and>
   validateFilename '''' = Some (Plain ''invalid filename: '')"
  using validateFilename_accepts_iff [of "''report-2.v1_final.TXT''"]
        validateFilename_accepts_iff [of "''/etc/passwd''"]
        validateFilename_accepts_iff [of "''a b.txt''"]
        validateFilename_accepts_iff [of "''''"]
  by (simp add: spec_whole_match_def spec_allowed_char_def)

end
